theory Spec2Isabelle
  imports Main "HOL-Library.Word" "HOL-Library.Monad_Syntax"
begin

section \<open>Kubelet pod-update types: pkg/kubelet/types/pod_update.go\<close>

text \<open>
  A shallow embedding of the functions of \<^verbatim>\<open>pod_update.go\<close>. Conventions:
  \<^item> a Go \<^verbatim>\<open>string\<close> is a byte sequence: \<^typ>\<open>string\<close>;
  \<^item> a Go pointer \<^verbatim>\<open>*T\<close> is a \<^typ>\<open>'a option\<close>, \<^term>\<open>None\<close> being \<^verbatim>\<open>nil\<close>;
  \<^item> a Go \<^verbatim>\<open>map[string]string\<close> is a \<^typ>\<open>(string \<rightharpoonup> string) option\<close>, \<^term>\<open>None\<close> being
    the \<^verbatim>\<open>nil\<close> map;
  \<^item> \<^verbatim>\<open>int32\<close> is a 32-bit word read as two's complement by \<^term>\<open>sint\<close>;
  \<^item> a function that dereferences a pod pointer returns an \<^typ>\<open>'a option\<close> whose
    \<^term>\<open>None\<close> is the run-time panic of dereferencing \<^verbatim>\<open>nil\<close>;
  \<^item> a Go result pair \<^verbatim>\<open>(T, error)\<close> is a pair whose second component is an
    \<^typ>\<open>'e option\<close>, \<^term>\<open>None\<close> being the \<^verbatim>\<open>nil\<close> error.
\<close>

subsection \<open>The pod, as far as this file reads it\<close>

type_synonym int32 = "32 word"

record PodSpec =
  Priority :: "int32 option"
  PriorityClassName :: string

record Pod =
  UID :: string
  Annotations :: "(string \<rightharpoonup> string) option"
  Spec :: PodSpec

subsection \<open>Constants declared in other packages\<close>

text \<open>
  \<^verbatim>\<open>v1.MirrorPodAnnotationKey\<close>, \<^verbatim>\<open>scheduling.SystemCriticalPriority\<close> and
  \<^verbatim>\<open>scheduling.SystemNodeCritical\<close> are declared outside \<^verbatim>\<open>pod_update.go\<close>. Every
  function that reads one of them takes them as its first argument, so the theorems
  hold whatever their values are.
\<close>

record extern =
  MirrorPodAnnotationKey :: string
  SystemCriticalPriority :: int32
  SystemNodeCritical :: string

text \<open>
  Modelled from the spec: the declarations of the three imported constants are
  missing from the sources. The spec fixes the class name "system-node-critical" and
  says of the other two only that they are a fixed threshold and a mirror-pod key; the
  threshold and the key below are one admissible choice, used only where a theorem is
  evaluated at a concrete input.
\<close>

definition upstream :: extern where
  "upstream =
     \<lparr> MirrorPodAnnotationKey = ''kubernetes.io/config.mirror'',
       SystemCriticalPriority = 2000000000,
       SystemNodeCritical = ''system-node-critical'' \<rparr>"

subsection \<open>Annotation keys and source names\<close>

definition ConfigSourceAnnotationKey :: string where
  "ConfigSourceAnnotationKey = ''kubernetes.io/config.source''"

definition ConfigMirrorAnnotationKey :: "extern \<Rightarrow> string" where
  "ConfigMirrorAnnotationKey ext = MirrorPodAnnotationKey ext"

definition FileSource :: string where
  "FileSource = ''file''"

definition HTTPSource :: string where
  "HTTPSource = ''http''"

definition ApiserverSource :: string where
  "ApiserverSource = ''api''"

definition AllSource :: string where
  "AllSource = ''*''"

subsection \<open>Errors\<close>

text \<open>
  The two errors the file builds with \<^verbatim>\<open>fmt.Errorf\<close>, each carrying the value its
  message formats with \<^verbatim>\<open>%q\<close>:
  \<^verbatim>\<open>"unknown pod source %q"\<close> (the source name) and
  \<^verbatim>\<open>"cannot get source of pod %q"\<close> (the pod's UID).
\<close>

datatype error = UnknownPodSource string | CannotGetSource string

subsection \<open>GetValidatedSources\<close>

text \<open>
  The body of the \<^verbatim>\<open>for ... range sources\<close> loop; the first argument is the slice
  \<^verbatim>\<open>validated\<close> built so far. The cases are those of the \<^verbatim>\<open>switch\<close>, in its order.
\<close>

fun GetValidatedSources_loop :: "string list \<Rightarrow> string list \<Rightarrow> string list \<times> error option" where
  "GetValidatedSources_loop validated [] = (validated, None)"
| "GetValidatedSources_loop validated (source # rest) =
     (if source = AllSource then ([FileSource, HTTPSource, ApiserverSource], None)
      else if source = FileSource \<or> source = HTTPSource \<or> source = ApiserverSource
        then GetValidatedSources_loop (validated @ [source]) rest
      else if source = [] then GetValidatedSources_loop validated rest
      else ([], Some (UnknownPodSource source)))"

definition GetValidatedSources :: "string list \<Rightarrow> string list \<times> error option" where
  "GetValidatedSources sources = GetValidatedSources_loop [] sources"

subsection \<open>Provenance\<close>

definition GetPodSource :: "Pod option \<Rightarrow> (string \<times> error option) option" where
  "GetPodSource pod =
     do {
       p \<leftarrow> pod;
       case Annotations p of
         Some annotations \<Rightarrow>
           (case annotations ConfigSourceAnnotationKey of
              Some source \<Rightarrow> Some (source, None)
            | None \<Rightarrow> Some ([], Some (CannotGetSource (UID p))))
       | None \<Rightarrow> Some ([], Some (CannotGetSource (UID p)))
     }"

definition IsMirrorPod :: "extern \<Rightarrow> Pod option \<Rightarrow> bool option" where
  "IsMirrorPod ext pod =
     do {
       p \<leftarrow> pod;
       case Annotations p of
         None \<Rightarrow> Some False
       | Some annotations \<Rightarrow> Some (annotations (ConfigMirrorAnnotationKey ext) \<noteq> None)
     }"

definition IsStaticPod :: "Pod option \<Rightarrow> bool option" where
  "IsStaticPod pod =
     do {
       (source, err) \<leftarrow> GetPodSource pod;
       Some (err = None \<and> source \<noteq> ApiserverSource)
     }"

subsection \<open>Criticality and preemption\<close>

definition IsCriticalPodBasedOnPriority :: "extern \<Rightarrow> int32 \<Rightarrow> bool" where
  "IsCriticalPodBasedOnPriority ext priority =
     (sint (SystemCriticalPriority ext) \<le> sint priority)"

definition IsCriticalPod :: "extern \<Rightarrow> Pod option \<Rightarrow> bool option" where
  "IsCriticalPod ext pod =
     do {
       static \<leftarrow> IsStaticPod pod;
       if static then Some True
       else do {
         mirror \<leftarrow> IsMirrorPod ext pod;
         if mirror then Some True
         else do {
           p \<leftarrow> pod;
           case Priority (Spec p) of
             Some priority \<Rightarrow>
               if IsCriticalPodBasedOnPriority ext priority then Some True else Some False
           | None \<Rightarrow> Some False
         }
       }
     }"

text \<open>
  Go's \<^verbatim>\<open>a && b\<close> on operands that may panic: \<^verbatim>\<open>b\<close> runs only when \<^verbatim>\<open>a\<close> is true.
\<close>

definition andalso :: "bool option \<Rightarrow> bool option \<Rightarrow> bool option" where
  "andalso a b = do { x \<leftarrow> a; if x then b else Some False }"

definition Preemptable :: "extern \<Rightarrow> Pod option \<Rightarrow> Pod option \<Rightarrow> bool option" where
  "Preemptable ext preemptor preemptee =
     do {
       c \<leftarrow> andalso (IsCriticalPod ext preemptor) (map_option Not (IsCriticalPod ext preemptee));
       if c then Some True
       else
         (case preemptor of
            None \<Rightarrow> Some False
          | Some p \<Rightarrow>
             (case Priority (Spec p) of
                None \<Rightarrow> Some False
              | Some x \<Rightarrow>
                 (case preemptee of
                    None \<Rightarrow> Some False
                  | Some q \<Rightarrow>
                     (case Priority (Spec q) of
                        None \<Rightarrow> Some False
                      | Some y \<Rightarrow> Some (sint y < sint x)))))
     }"

definition IsNodeCriticalPod :: "extern \<Rightarrow> Pod option \<Rightarrow> bool option" where
  "IsNodeCriticalPod ext pod =
     andalso (IsCriticalPod ext pod)
       (do { p \<leftarrow> pod; Some (PriorityClassName (Spec p) = SystemNodeCritical ext) })"

subsection \<open>SyncPodType\<close>

text \<open>
  \<^verbatim>\<open>type SyncPodType int\<close>: any integer is a value of the type, the four constants
  are \<^verbatim>\<open>iota\<close> = 0, 1, 2, 3. No arithmetic is done on it, so the width of \<^verbatim>\<open>int\<close>
  plays no role and the model uses \<^typ>\<open>int\<close>.
\<close>

type_synonym SyncPodType = int

definition SyncPodSync :: SyncPodType where
  "SyncPodSync = 0"

definition SyncPodUpdate :: SyncPodType where
  "SyncPodUpdate = 1"

definition SyncPodCreate :: SyncPodType where
  "SyncPodCreate = 2"

definition SyncPodKill :: SyncPodType where
  "SyncPodKill = 3"

definition SyncPodType_String :: "SyncPodType \<Rightarrow> string" where
  "SyncPodType_String sp =
     (if sp = SyncPodCreate then ''create''
      else if sp = SyncPodUpdate then ''update''
      else if sp = SyncPodSync then ''sync''
      else if sp = SyncPodKill then ''kill''
      else ''unknown'')"

subsection \<open>Concrete pods\<close>

text \<open>
  Pods at which the theorems below are evaluated. The mirror and source annotations
  carry the keys of \<^term>\<open>upstream\<close> and \<^term>\<open>ConfigSourceAnnotationKey\<close>.
\<close>

definition pod_mirror_0 :: Pod where
  "pod_mirror_0 =
     \<lparr> UID = ''m0'',
       Annotations = Some [''kubernetes.io/config.mirror'' \<mapsto> ''6c3f''],
       Spec = \<lparr> Priority = Some 0, PriorityClassName = [] \<rparr> \<rparr>"

definition pod_plain_100 :: Pod where
  "pod_plain_100 =
     \<lparr> UID = ''p100'',
       Annotations = None,
       Spec = \<lparr> Priority = Some 100, PriorityClassName = [] \<rparr> \<rparr>"

definition pod_plain_nopriority :: Pod where
  "pod_plain_nopriority =
     \<lparr> UID = ''p'',
       Annotations = Some Map.empty,
       Spec = \<lparr> Priority = None, PriorityClassName = [] \<rparr> \<rparr>"

definition pod_with_source :: "string \<Rightarrow> string \<Rightarrow> Pod" where
  "pod_with_source source className =
     \<lparr> UID = ''s'',
       Annotations = Some [''kubernetes.io/config.source'' \<mapsto> source],
       Spec = \<lparr> Priority = None, PriorityClassName = className \<rparr> \<rparr>"

section \<open>Auxiliary facts\<close>

lemmas source_names = AllSource_def FileSource_def HTTPSource_def ApiserverSource_def

lemmas annotation_keys = ConfigSourceAnnotationKey_def ConfigMirrorAnnotationKey_def

lemmas classifiers =
  GetPodSource_def IsStaticPod_def IsMirrorPod_def IsCriticalPod_def
  IsCriticalPodBasedOnPriority_def andalso_def

lemmas concrete_pods =
  pod_mirror_0_def pod_plain_100_def pod_plain_nopriority_def pod_with_source_def upstream_def

subsection \<open>The classifiers on a pod that is not nil\<close>

lemma GetPodSource_Some:
  "GetPodSource (Some p) =
     Some (case Annotations p of
             Some m \<Rightarrow>
               (case m ConfigSourceAnnotationKey of
                  Some s \<Rightarrow> (s, None)
                | None \<Rightarrow> ([], Some (CannotGetSource (UID p))))
           | None \<Rightarrow> ([], Some (CannotGetSource (UID p))))"
  by (simp add: GetPodSource_def split: option.splits)

lemma IsStaticPod_Some:
  "IsStaticPod (Some p) =
     Some (\<exists>m s. Annotations p = Some m \<and> m ConfigSourceAnnotationKey = Some s \<and>
                 s \<noteq> ApiserverSource)"
  by (auto simp: IsStaticPod_def GetPodSource_Some split: option.splits)

lemma IsMirrorPod_Some:
  "IsMirrorPod ext (Some p) =
     Some (\<exists>m v. Annotations p = Some m \<and> m (ConfigMirrorAnnotationKey ext) = Some v)"
  by (auto simp: IsMirrorPod_def split: option.splits)

lemma IsCriticalPod_Some:
  "IsCriticalPod ext (Some p) =
     Some (IsStaticPod (Some p) = Some True \<or> IsMirrorPod ext (Some p) = Some True \<or>
           (\<exists>priority. Priority (Spec p) = Some priority \<and>
                       IsCriticalPodBasedOnPriority ext priority))"
  by (auto simp: IsCriticalPod_def IsStaticPod_Some IsMirrorPod_Some split: option.splits)

lemma IsCriticalPod_total: "\<exists>c. IsCriticalPod ext (Some p) = Some c"
  by (simp add: IsCriticalPod_Some)

lemma Preemptable_Some:
  assumes "IsCriticalPod ext (Some a) = Some ca" and "IsCriticalPod ext (Some b) = Some cb"
  shows "Preemptable ext (Some a) (Some b) =
     Some (if ca \<and> \<not> cb then True
           else (case Priority (Spec a) of
                   None \<Rightarrow> False
                 | Some x \<Rightarrow> (case Priority (Spec b) of None \<Rightarrow> False | Some y \<Rightarrow> sint y < sint x)))"
  using assms by (simp add: Preemptable_def andalso_def split: option.splits)

subsection \<open>The classifiers on a nil pod\<close>

text \<open>
  Every classifier dereferences its pod before anything else, so a nil pod is a panic.
  The nil tests of \<^verbatim>\<open>Preemptable\<close> come after the calls of \<^verbatim>\<open>IsCriticalPod\<close>: a nil
  preemptee is answered with false only when the preemptor is not critical.
\<close>

lemma nil_pod:
  "GetPodSource None = None"
  "IsMirrorPod ext None = None"
  "IsStaticPod None = None"
  "IsCriticalPod ext None = None"
  "IsNodeCriticalPod ext None = None"
  "Preemptable ext None preemptee = None"
  by (simp_all add: classifiers IsNodeCriticalPod_def Preemptable_def)

lemma Preemptable_nil_preemptee:
  "IsCriticalPod ext (Some p) = Some c \<Longrightarrow>
   Preemptable ext (Some p) None = (if c then None else Some False)"
  by (simp add: Preemptable_def andalso_def nil_pod split: option.splits)

subsection \<open>The validation loop, for any slice built so far\<close>

lemma loop_recognized:
  "set xs \<subseteq> {FileSource, HTTPSource, ApiserverSource} \<Longrightarrow>
   GetValidatedSources_loop acc xs = (acc @ xs, None)"
  by (induction xs arbitrary: acc) (auto simp: source_names)

lemma loop_wildcard:
  "set pre \<subseteq> {FileSource, HTTPSource, ApiserverSource, []} \<Longrightarrow>
   GetValidatedSources_loop acc (pre @ AllSource # post) =
     ([FileSource, HTTPSource, ApiserverSource], None)"
  by (induction pre arbitrary: acc) (auto simp: source_names)

lemma loop_unknown:
  "set pre \<subseteq> {FileSource, HTTPSource, ApiserverSource, []} \<Longrightarrow>
   bad \<notin> {AllSource, FileSource, HTTPSource, ApiserverSource, []} \<Longrightarrow>
   GetValidatedSources_loop acc (pre @ bad # post) = ([], Some (UnknownPodSource bad))"
  by (induction pre arbitrary: acc) (auto simp: source_names)

lemma loop_skip_empty:
  "GetValidatedSources_loop acc (filter (\<lambda>s. s \<noteq> []) xs) = GetValidatedSources_loop acc xs"
  by (induction xs arbitrary: acc) (auto simp: source_names)

section \<open>The claims\<close>

subsection \<open>C1: Preemptable in both directions\<close>

text \<open>
  Claim C1, amended. For every pair of pods A and B (neither nil) and the same constants,
  \<^verbatim>\<open>Preemptable(A, B)\<close> and \<^verbatim>\<open>Preemptable(B, A)\<close> are both true exactly when one
  of the two pods is critical, the other is not, both carry an explicit priority and
  the priority of the non-critical pod is strictly greater than that of the critical
  one. Hence the two are never both true for pods of the same criticality, and for
  such pods both are false when either lacks a priority.
\<close>

theorem Preemptable_both_true_iff:
  "((Preemptable ext (Some a) (Some b) = Some True \<and>
     Preemptable ext (Some b) (Some a) = Some True) \<longleftrightarrow>
    (\<exists>x y. Priority (Spec a) = Some x \<and> Priority (Spec b) = Some y \<and>
       (IsCriticalPod ext (Some a) = Some True \<and> IsCriticalPod ext (Some b) = Some False \<and>
          sint x < sint y \<or>
        IsCriticalPod ext (Some a) = Some False \<and> IsCriticalPod ext (Some b) = Some True \<and>
          sint y < sint x)))
   \<and> (IsCriticalPod ext (Some a) = IsCriticalPod ext (Some b) \<longrightarrow>
        \<not> (Preemptable ext (Some a) (Some b) = Some True \<and>
           Preemptable ext (Some b) (Some a) = Some True))
   \<and> (IsCriticalPod ext (Some a) = IsCriticalPod ext (Some b) \<and>
        (Priority (Spec a) = None \<or> Priority (Spec b) = None) \<longrightarrow>
        Preemptable ext (Some a) (Some b) = Some False \<and>
        Preemptable ext (Some b) (Some a) = Some False)"
proof -
  obtain ca cb where c: "IsCriticalPod ext (Some a) = Some ca" "IsCriticalPod ext (Some b) = Some cb"
    using IsCriticalPod_total by blast
  note ab = Preemptable_Some [OF c(1) c(2)] and ba = Preemptable_Some [OF c(2) c(1)]
  show ?thesis
    unfolding ab ba c by (cases ca; cases cb; auto split: option.splits)
qed

text \<open>
  At two non-critical pods, one of them without a priority, both directions are false.
\<close>

theorem Preemptable_both_true_iff_witness:
  "IsCriticalPod upstream (Some pod_plain_nopriority) = IsCriticalPod upstream (Some pod_plain_100) \<and>
   Priority (Spec pod_plain_nopriority) = None \<and>
   Preemptable upstream (Some pod_plain_nopriority) (Some pod_plain_100) = Some False \<and>
   Preemptable upstream (Some pod_plain_100) (Some pod_plain_nopriority) = Some False"
proof -
  have same: "IsCriticalPod upstream (Some pod_plain_nopriority) =
      IsCriticalPod upstream (Some pod_plain_100)"
    by (simp add: classifiers annotation_keys concrete_pods)
  have none: "Priority (Spec pod_plain_nopriority) = None"
    by (simp add: pod_plain_nopriority_def)
  show ?thesis
    using Preemptable_both_true_iff [of upstream pod_plain_nopriority pod_plain_100] same none
    by simp
qed

text \<open>
  C1 as written does not hold: a mirror pod of priority 0 (critical) and a pod with no
  annotations and priority 100 (not critical) preempt one another, the first by
  criticality, the second by the numeric comparison.
\<close>

theorem Preemptable_not_antisymmetric:
  "pod_mirror_0 \<noteq> pod_plain_100 \<and>
   Preemptable upstream (Some pod_mirror_0) (Some pod_plain_100) = Some True \<and>
   Preemptable upstream (Some pod_plain_100) (Some pod_mirror_0) = Some True"
  by (simp add: Preemptable_def classifiers annotation_keys concrete_pods)

subsection \<open>C2: the wildcard\<close>

text \<open>
  Claim C2, amended. Let \<open>pre\<close> be the elements before the first wildcard of an input
  and \<open>post\<close> the elements after it. \<^verbatim>\<open>GetValidatedSources\<close> returns exactly
  [file, http, api] and no error if and only if every element of \<open>pre\<close> is a recognized
  source name or the empty string; \<open>post\<close> is never inspected.
\<close>

theorem GetValidatedSources_wildcard:
  assumes "AllSource \<notin> set pre"
  shows "(GetValidatedSources (pre @ AllSource # post) =
            ([FileSource, HTTPSource, ApiserverSource], None)) \<longleftrightarrow>
         set pre \<subseteq> {FileSource, HTTPSource, ApiserverSource, []}"
proof
  assume "set pre \<subseteq> {FileSource, HTTPSource, ApiserverSource, []}"
  then show "GetValidatedSources (pre @ AllSource # post) =
      ([FileSource, HTTPSource, ApiserverSource], None)"
    by (simp add: GetValidatedSources_def loop_wildcard)
next
  assume ok: "GetValidatedSources (pre @ AllSource # post) =
      ([FileSource, HTTPSource, ApiserverSource], None)"
  show "set pre \<subseteq> {FileSource, HTTPSource, ApiserverSource, []}"
  proof (rule ccontr)
    assume "\<not> set pre \<subseteq> {FileSource, HTTPSource, ApiserverSource, []}"
    then have "\<exists>s \<in> set pre. s \<notin> {FileSource, HTTPSource, ApiserverSource, []}"
      by blast
    then obtain ys bad zs where split: "pre = ys @ bad # zs"
      and bad: "bad \<notin> {FileSource, HTTPSource, ApiserverSource, []}"
      and ys: "\<forall>y \<in> set ys. \<not> y \<notin> {FileSource, HTTPSource, ApiserverSource, []}"
      using split_list_first_prop [of pre "\<lambda>s. s \<notin> {FileSource, HTTPSource, ApiserverSource, []}"]
      by blast
    from split assms have "bad \<noteq> AllSource" by auto
    with bad have bad': "bad \<notin> {AllSource, FileSource, HTTPSource, ApiserverSource, []}"
      by simp
    from ys have ys': "set ys \<subseteq> {FileSource, HTTPSource, ApiserverSource, []}"
      by blast
    have "GetValidatedSources (pre @ AllSource # post) = ([], Some (UnknownPodSource bad))"
      using loop_unknown [OF ys' bad', of "[]" "zs @ AllSource # post"]
      by (simp add: GetValidatedSources_def split)
    with ok show False by simp
  qed
qed

text \<open>
  A wildcard after recognized names and an empty string, followed by an unknown name
  and a second wildcard.
\<close>

theorem GetValidatedSources_wildcard_witness:
  "AllSource \<notin> set [''file'', [], ''http'', ''file''] \<and>
   GetValidatedSources ([''file'', [], ''http'', ''file''] @ AllSource # [''bogus'', ''*'']) =
     ([''file'', ''http'', ''api''], None)"
proof -
  have pre: "AllSource \<notin> set [''file'', [], ''http'', ''file'']"
    by (simp add: AllSource_def)
  show ?thesis
    using pre GetValidatedSources_wildcard [OF pre, of "[''bogus'', ''*'']"]
    by (simp add: source_names)
qed

text \<open>
  C2 as written does not hold: the loop reaches an unknown name that stands before the
  wildcard first and returns the error.
\<close>

theorem GetValidatedSources_wildcard_after_unknown:
  "AllSource \<in> set [''bogus'', ''*''] \<and>
   GetValidatedSources [''bogus'', ''*''] = ([], Some (UnknownPodSource ''bogus''))"
  by (simp add: GetValidatedSources_def source_names)

subsection \<open>C3: the decision of Preemptable\<close>

text \<open>
  Claim C3. For every pair of pods (neither nil), \<^verbatim>\<open>IsCriticalPod\<close> returns on both
  and \<^verbatim>\<open>Preemptable\<close> returns true if the preemptor is critical and the preemptee is
  not; otherwise, if both carry a priority, it returns whether the preemptor's is
  strictly greater; in every remaining case it returns false.
\<close>

theorem Preemptable_decision:
  "\<exists>c1 c2. IsCriticalPod ext (Some preemptor) = Some c1 \<and>
           IsCriticalPod ext (Some preemptee) = Some c2 \<and>
           Preemptable ext (Some preemptor) (Some preemptee) =
             Some (if c1 \<and> \<not> c2 then True
                   else (case (Priority (Spec preemptor), Priority (Spec preemptee)) of
                           (Some x, Some y) \<Rightarrow> sint y < sint x
                         | _ \<Rightarrow> False))"
proof -
  obtain c1 c2 where c: "IsCriticalPod ext (Some preemptor) = Some c1"
      "IsCriticalPod ext (Some preemptee) = Some c2"
    using IsCriticalPod_total by blast
  show ?thesis
    using c Preemptable_Some [OF c] by (auto split: option.splits)
qed

text \<open>
  The three branches at concrete pods: critical against non-critical of higher
  priority, a missing priority, and equal priorities.
\<close>

theorem Preemptable_decision_witness:
  "Preemptable upstream (Some pod_mirror_0) (Some pod_plain_100) = Some True \<and>
   Preemptable upstream (Some pod_plain_100) (Some pod_plain_nopriority) = Some False \<and>
   Preemptable upstream (Some pod_plain_100) (Some pod_plain_100) = Some False"
proof -
  have crit: "IsCriticalPod upstream (Some pod_mirror_0) = Some True"
    "IsCriticalPod upstream (Some pod_plain_100) = Some False"
    "IsCriticalPod upstream (Some pod_plain_nopriority) = Some False"
    by (simp_all add: classifiers annotation_keys concrete_pods)
  have prio: "Priority (Spec pod_mirror_0) = Some 0" "Priority (Spec pod_plain_100) = Some 100"
    "Priority (Spec pod_plain_nopriority) = None"
    by (simp_all add: concrete_pods)
  show ?thesis
    using Preemptable_decision [of upstream pod_mirror_0 pod_plain_100]
      Preemptable_decision [of upstream pod_plain_100 pod_plain_nopriority]
      Preemptable_decision [of upstream pod_plain_100 pod_plain_100]
    by (auto simp: crit prio)
qed

subsection \<open>C4: IsCriticalPod\<close>

text \<open>
  Claim C4. For every pod (not nil), \<^verbatim>\<open>IsCriticalPod\<close> returns true iff the pod is
  static, or is a mirror pod, or carries a priority greater than or equal to
  \<^verbatim>\<open>scheduling.SystemCriticalPriority\<close>. In particular a pod with the mirror annotation
  (of any value) and priority 0 is critical, although priority 0 alone is not critical
  for any positive threshold.
\<close>

theorem IsCriticalPod_iff:
  "IsCriticalPod ext (Some pod) =
     Some (IsStaticPod (Some pod) = Some True \<or> IsMirrorPod ext (Some pod) = Some True \<or>
           (\<exists>priority. Priority (Spec pod) = Some priority \<and>
                       sint (SystemCriticalPriority ext) \<le> sint priority))
   \<and> (Annotations pod = Some annotations \<and>
       annotations (ConfigMirrorAnnotationKey ext) = Some v \<and>
       Priority (Spec pod) = Some 0 \<longrightarrow>
       IsCriticalPod ext (Some pod) = Some True)
   \<and> (0 < sint (SystemCriticalPriority ext) \<longrightarrow> \<not> IsCriticalPodBasedOnPriority ext 0)"
  by (auto simp: IsCriticalPod_Some IsMirrorPod_Some IsCriticalPodBasedOnPriority_def)

text \<open>
  The mirror pod of priority 0, with the threshold 2000000000.
\<close>

theorem IsCriticalPod_iff_witness:
  "Annotations pod_mirror_0 = Some [''kubernetes.io/config.mirror'' \<mapsto> ''6c3f''] \<and>
   Priority (Spec pod_mirror_0) = Some 0 \<and>
   sint (SystemCriticalPriority upstream) = 2000000000 \<and>
   IsStaticPod (Some pod_mirror_0) = Some False \<and>
   \<not> IsCriticalPodBasedOnPriority upstream 0 \<and>
   IsCriticalPod upstream (Some pod_mirror_0) = Some True"
proof -
  let ?m = "[''kubernetes.io/config.mirror'' \<mapsto> ''6c3f'']"
  have pod: "Annotations pod_mirror_0 = Some ?m" "Priority (Spec pod_mirror_0) = Some 0"
    by (simp_all add: pod_mirror_0_def)
  have key: "?m (ConfigMirrorAnnotationKey upstream) = Some ''6c3f''"
    by (simp add: ConfigMirrorAnnotationKey_def upstream_def)
  have thr: "sint (SystemCriticalPriority upstream) = 2000000000"
    by (simp add: upstream_def)
  have static: "IsStaticPod (Some pod_mirror_0) = Some False"
    by (simp add: IsStaticPod_Some pod_mirror_0_def ConfigSourceAnnotationKey_def)
  have "IsCriticalPod upstream (Some pod_mirror_0) = Some True \<and>
      \<not> IsCriticalPodBasedOnPriority upstream 0"
    using IsCriticalPod_iff [where ext = upstream and pod = pod_mirror_0
        and annotations = ?m and v = "''6c3f''", THEN conjunct2] pod key thr
    by simp
  with pod thr static show ?thesis by simp
qed

subsection \<open>C5: IsStaticPod and the provenance lookup\<close>

text \<open>
  Claim C5. For every pod (not nil), \<^verbatim>\<open>IsStaticPod\<close> returns true iff \<^verbatim>\<open>GetPodSource\<close>
  returns a source with a nil error and that source is not "api". When the annotations
  map is nil or has no source annotation, \<^verbatim>\<open>GetPodSource\<close> returns its error and
  \<^verbatim>\<open>IsStaticPod\<close> returns false; it returns false whenever the lookup returns an error.
\<close>

theorem IsStaticPod_iff:
  "IsStaticPod (Some pod) =
     Some (\<exists>source. GetPodSource (Some pod) = Some (source, None) \<and> source \<noteq> ApiserverSource)
   \<and> (Annotations pod = None \<or>
       (\<exists>annotations. Annotations pod = Some annotations \<and>
                       annotations ConfigSourceAnnotationKey = None) \<longrightarrow>
       GetPodSource (Some pod) = Some ([], Some (CannotGetSource (UID pod))) \<and>
       IsStaticPod (Some pod) = Some False)
   \<and> (GetPodSource (Some pod) = Some (source', Some err) \<longrightarrow>
       IsStaticPod (Some pod) = Some False)"
  by (auto simp: IsStaticPod_def GetPodSource_Some split: option.splits)

text \<open>
  A pod with source "api", a pod with an empty annotations map and a pod with a nil
  annotations map: none is static, and the last two fail the lookup.
\<close>

theorem IsStaticPod_iff_witness:
  "GetPodSource (Some (pod_with_source ''api'' [])) = Some (''api'', None) \<and>
   IsStaticPod (Some (pod_with_source ''api'' [])) = Some False \<and>
   Annotations pod_plain_nopriority = Some Map.empty \<and>
   GetPodSource (Some pod_plain_nopriority) = Some ([], Some (CannotGetSource ''p'')) \<and>
   IsStaticPod (Some pod_plain_nopriority) = Some False \<and>
   Annotations pod_plain_100 = None \<and>
   GetPodSource (Some pod_plain_100) = Some ([], Some (CannotGetSource ''p100'')) \<and>
   IsStaticPod (Some pod_plain_100) = Some False"
proof -
  have api: "GetPodSource (Some (pod_with_source ''api'' [])) = Some (''api'', None)"
    by (simp add: GetPodSource_Some pod_with_source_def ConfigSourceAnnotationKey_def)
  have api_static: "IsStaticPod (Some (pod_with_source ''api'' [])) = Some False"
    using IsStaticPod_iff [where pod = "pod_with_source ''api'' []", THEN conjunct1] api
    by (simp add: ApiserverSource_def)
  have empty: "Annotations pod_plain_nopriority = Some Map.empty" "UID pod_plain_nopriority = ''p''"
    by (simp_all add: pod_plain_nopriority_def)
  have nil: "Annotations pod_plain_100 = None" "UID pod_plain_100 = ''p100''"
    by (simp_all add: pod_plain_100_def)
  show ?thesis
    using api api_static empty nil
      IsStaticPod_iff [where pod = pod_plain_nopriority, THEN conjunct2, THEN conjunct1]
      IsStaticPod_iff [where pod = pod_plain_100, THEN conjunct2, THEN conjunct1]
    by simp
qed

subsection \<open>C6: recognized names pass unchanged\<close>

text \<open>
  Claim C6. For every input in which every element is one of "file", "http", "api",
  \<^verbatim>\<open>GetValidatedSources\<close> returns the input itself, order and duplicates kept, and no
  error.
\<close>

theorem GetValidatedSources_recognized:
  "set sources \<subseteq> {FileSource, HTTPSource, ApiserverSource} \<Longrightarrow>
   GetValidatedSources sources = (sources, None)"
  by (simp add: GetValidatedSources_def loop_recognized)

text \<open>
  An input with duplicates, not in the order of the wildcard's expansion.
\<close>

theorem GetValidatedSources_recognized_witness:
  "set [''http'', ''file'', ''file'', ''api'', ''http''] \<subseteq> {FileSource, HTTPSource, ApiserverSource} \<and>
   GetValidatedSources [''http'', ''file'', ''file'', ''api'', ''http''] =
     ([''http'', ''file'', ''file'', ''api'', ''http''], None)"
proof -
  have h: "set [''http'', ''file'', ''file'', ''api'', ''http''] \<subseteq>
      {FileSource, HTTPSource, ApiserverSource}"
    by (simp add: source_names)
  show ?thesis
    using h GetValidatedSources_recognized [OF h] by simp
qed

subsection \<open>C7: empty strings and unknown names\<close>

text \<open>
  Claim C7, amended. Removing the empty strings of any input does not change what
  \<^verbatim>\<open>GetValidatedSources\<close> returns. If an element is neither the wildcard, nor a
  recognized name, nor empty, and every element before it is a recognized name or empty
  (so no wildcard stands before it), \<^verbatim>\<open>GetValidatedSources\<close> returns the empty
  sequence and the error carrying that element, whatever follows. In particular
  \<^verbatim>\<open>GetValidatedSources(["bogus"])\<close> returns the empty sequence and an error.
\<close>

theorem GetValidatedSources_unknown:
  "GetValidatedSources (filter (\<lambda>s. s \<noteq> []) sources) = GetValidatedSources sources
   \<and> (set pre \<subseteq> {FileSource, HTTPSource, ApiserverSource, []} \<and>
       bad \<notin> {AllSource, FileSource, HTTPSource, ApiserverSource, []} \<longrightarrow>
       GetValidatedSources (pre @ bad # post) = ([], Some (UnknownPodSource bad)))
   \<and> GetValidatedSources [''bogus''] = ([], Some (UnknownPodSource ''bogus''))"
proof -
  have "GetValidatedSources [''bogus''] = ([], Some (UnknownPodSource ''bogus''))"
    by (simp add: GetValidatedSources_def source_names)
  then show ?thesis
    by (simp add: GetValidatedSources_def loop_skip_empty loop_unknown)
qed

text \<open>
  An unknown name after two recognized names and an empty string; and an input whose
  empty strings are skipped.
\<close>

theorem GetValidatedSources_unknown_witness:
  "set [''file'', [], ''api''] \<subseteq> {FileSource, HTTPSource, ApiserverSource, []} \<and>
   ''bogus'' \<notin> {AllSource, FileSource, HTTPSource, ApiserverSource, []} \<and>
   GetValidatedSources ([''file'', [], ''api''] @ ''bogus'' # [''http'', ''*'']) =
     ([], Some (UnknownPodSource ''bogus'')) \<and>
   GetValidatedSources (filter (\<lambda>s. s \<noteq> []) [[], ''file'', [], ''api'', []]) =
     ([''file'', ''api''], None) \<and>
   GetValidatedSources [[], ''file'', [], ''api'', []] = ([''file'', ''api''], None)"
proof -
  have pre: "set [''file'', [], ''api''] \<subseteq> {FileSource, HTTPSource, ApiserverSource, []}"
    by (simp add: source_names)
  have bad: "''bogus'' \<notin> {AllSource, FileSource, HTTPSource, ApiserverSource, []}"
    by (simp add: source_names)
  have fails: "GetValidatedSources ([''file'', [], ''api''] @ ''bogus'' # [''http'', ''*'']) =
      ([], Some (UnknownPodSource ''bogus''))"
    using GetValidatedSources_unknown [where pre = "[''file'', [], ''api'']" and bad = "''bogus''"
        and post = "[''http'', ''*'']", THEN conjunct2, THEN conjunct1] pre bad
    by blast
  have skipped: "GetValidatedSources [[], ''file'', [], ''api'', []] = ([''file'', ''api''], None)"
    by (simp add: GetValidatedSources_def source_names)
  have "GetValidatedSources (filter (\<lambda>s. s \<noteq> []) [[], ''file'', [], ''api'', []]) =
      GetValidatedSources [[], ''file'', [], ''api'', []]"
    using GetValidatedSources_unknown [where sources = "[[], ''file'', [], ''api'', []]", THEN conjunct1] .
  with pre bad fails skipped show ?thesis by simp
qed

text \<open>
  C7 as written, for every input, does not hold: an unknown name that stands after a
  wildcard is never reached, and the call succeeds.
\<close>

theorem GetValidatedSources_unknown_after_wildcard:
  "''bogus'' \<notin> {AllSource, FileSource, HTTPSource, ApiserverSource, []} \<and>
   GetValidatedSources [''*'', ''bogus''] = ([''file'', ''http'', ''api''], None)"
  by (simp add: GetValidatedSources_def source_names)

subsection \<open>C8: the source annotation is not validated\<close>

text \<open>
  Claim C8. Every pod (not nil) whose source annotation is present with a value other
  than "api" is static, whatever the value: \<^verbatim>\<open>IsStaticPod\<close> compares it with "api" only.
\<close>

theorem IsStaticPod_unvalidated_source:
  "Annotations pod = Some annotations \<Longrightarrow>
   annotations ConfigSourceAnnotationKey = Some v \<Longrightarrow>
   v \<noteq> ApiserverSource \<Longrightarrow>
   IsStaticPod (Some pod) = Some True"
  by (simp add: IsStaticPod_Some)

text \<open>
  The empty string and "bogus", a name that \<^verbatim>\<open>GetValidatedSources\<close> rejects.
\<close>

theorem IsStaticPod_unvalidated_source_witness:
  "IsStaticPod (Some (pod_with_source [] [])) = Some True \<and>
   IsStaticPod (Some (pod_with_source ''bogus'' [])) = Some True \<and>
   fst (GetValidatedSources [''bogus'']) = [] \<and> snd (GetValidatedSources [''bogus'']) \<noteq> None"
proof -
  have a: "Annotations (pod_with_source s c) = Some [''kubernetes.io/config.source'' \<mapsto> s]" for s c
    by (simp add: pod_with_source_def)
  have k: "[''kubernetes.io/config.source'' \<mapsto> s] ConfigSourceAnnotationKey = Some s" for s
    by (simp add: ConfigSourceAnnotationKey_def)
  have "[] \<noteq> ApiserverSource" and "''bogus'' \<noteq> ApiserverSource"
    by (simp_all add: ApiserverSource_def)
  then have "IsStaticPod (Some (pod_with_source [] [])) = Some True"
    and "IsStaticPod (Some (pod_with_source ''bogus'' [])) = Some True"
    using IsStaticPod_unvalidated_source [OF a k] by blast+
  then show ?thesis
    by (simp add: GetValidatedSources_def source_names)
qed

subsection \<open>C9: IsNodeCriticalPod\<close>

text \<open>
  Claim C9. For every pod (not nil), \<^verbatim>\<open>IsNodeCriticalPod\<close> returns true iff
  \<^verbatim>\<open>IsCriticalPod\<close> returns true and the pod's priority-class name is
  \<^verbatim>\<open>scheduling.SystemNodeCritical\<close>. So a node-critical pod is critical, and the converse
  fails: some critical pod is not node-critical.
\<close>

theorem IsNodeCriticalPod_iff:
  "IsNodeCriticalPod ext (Some pod) =
     Some (IsCriticalPod ext (Some pod) = Some True \<and>
           PriorityClassName (Spec pod) = SystemNodeCritical ext)
   \<and> (IsNodeCriticalPod ext (Some pod) = Some True \<longrightarrow> IsCriticalPod ext (Some pod) = Some True)
   \<and> (\<exists>other. IsCriticalPod ext (Some other) = Some True \<and>
               IsNodeCriticalPod ext (Some other) = Some False)"
proof -
  obtain c where c: "IsCriticalPod ext (Some pod) = Some c"
    using IsCriticalPod_total by blast
  have first: "IsNodeCriticalPod ext (Some pod) =
     Some (IsCriticalPod ext (Some pod) = Some True \<and>
           PriorityClassName (Spec pod) = SystemNodeCritical ext)"
    by (simp add: IsNodeCriticalPod_def andalso_def c)
  let ?other = "pod_with_source FileSource (CHR ''x'' # SystemNodeCritical ext)"
  have "IsStaticPod (Some ?other) = Some True"
    by (simp add: IsStaticPod_Some pod_with_source_def ConfigSourceAnnotationKey_def source_names)
  then have crit: "IsCriticalPod ext (Some ?other) = Some True"
    by (simp add: IsCriticalPod_Some)
  then have "IsNodeCriticalPod ext (Some ?other) = Some False"
    by (simp add: IsNodeCriticalPod_def andalso_def pod_with_source_def)
  with crit have "\<exists>other. IsCriticalPod ext (Some other) = Some True \<and>
      IsNodeCriticalPod ext (Some other) = Some False"
    by blast
  with first show ?thesis by simp
qed

text \<open>
  A static pod of class "system-node-critical" is node-critical, hence critical; a
  static pod of another class is critical and not node-critical.
\<close>

theorem IsNodeCriticalPod_iff_witness:
  "IsNodeCriticalPod upstream (Some (pod_with_source ''file'' ''system-node-critical'')) = Some True \<and>
   IsCriticalPod upstream (Some (pod_with_source ''file'' ''system-node-critical'')) = Some True \<and>
   IsCriticalPod upstream (Some (pod_with_source ''file'' ''system-cluster-critical'')) = Some True \<and>
   IsNodeCriticalPod upstream (Some (pod_with_source ''file'' ''system-cluster-critical'')) = Some False"
proof -
  let ?p = "pod_with_source ''file'' ''system-node-critical''"
  have nc: "IsNodeCriticalPod upstream (Some ?p) = Some True"
    by (simp add: IsNodeCriticalPod_def classifiers annotation_keys concrete_pods source_names)
  then have "IsCriticalPod upstream (Some ?p) = Some True"
    using IsNodeCriticalPod_iff [where ext = upstream and pod = ?p, THEN conjunct2, THEN conjunct1]
    by blast
  with nc show ?thesis
    by (simp add: IsNodeCriticalPod_def classifiers annotation_keys concrete_pods source_names)
qed

subsection \<open>C10: the rendering of SyncPodType\<close>

text \<open>
  Claim C10. \<^verbatim>\<open>String\<close> maps \<^verbatim>\<open>SyncPodSync\<close> to "sync", \<^verbatim>\<open>SyncPodUpdate\<close> to "update",
  \<^verbatim>\<open>SyncPodCreate\<close> to "create", \<^verbatim>\<open>SyncPodKill\<close> to "kill" and every other value to
  "unknown".
\<close>

theorem SyncPodType_String_total:
  "SyncPodType_String SyncPodSync = ''sync'' \<and>
   SyncPodType_String SyncPodUpdate = ''update'' \<and>
   SyncPodType_String SyncPodCreate = ''create'' \<and>
   SyncPodType_String SyncPodKill = ''kill'' \<and>
   (sp \<notin> {SyncPodSync, SyncPodUpdate, SyncPodCreate, SyncPodKill} \<longrightarrow>
      SyncPodType_String sp = ''unknown'')"
  by (simp add: SyncPodType_String_def SyncPodSync_def SyncPodUpdate_def SyncPodCreate_def
      SyncPodKill_def)

text \<open>
  Two values that are none of the four constants.
\<close>

theorem SyncPodType_String_total_witness:
  "(4::int) \<notin> {SyncPodSync, SyncPodUpdate, SyncPodCreate, SyncPodKill} \<and>
   SyncPodType_String 4 = ''unknown'' \<and>
   (- 1::int) \<notin> {SyncPodSync, SyncPodUpdate, SyncPodCreate, SyncPodKill} \<and>
   SyncPodType_String (- 1) = ''unknown''"
proof -
  have four: "(4::int) \<notin> {SyncPodSync, SyncPodUpdate, SyncPodCreate, SyncPodKill}"
    and minus: "(- 1::int) \<notin> {SyncPodSync, SyncPodUpdate, SyncPodCreate, SyncPodKill}"
    by (simp_all add: SyncPodSync_def SyncPodUpdate_def SyncPodCreate_def SyncPodKill_def)
  show ?thesis
    using four minus SyncPodType_String_total [of 4] SyncPodType_String_total [of "- 1"]
    by blast
qed

end
